theory Spec2Isabelle
  imports Main "HOL-Library.AList"
begin

section \<open>ShelfSense: the in-memory store (server/storage.ts) and its schema\<close>

text \<open>
  Conventions of the embedding.
  \<^item> An id (the string returned by \<open>randomUUID()\<close>, or sent by a caller) is an opaque
    value of type \<open>uuid\<close>. Every call of \<open>randomUUID()\<close> in the source is an explicit
    argument of the model, so that a key collision is an input like any other.
  \<^item> A \<open>Date\<close> is its number of milliseconds since the epoch; \<open>new Date()\<close> is the
    argument \<open>now\<close> of the operation that calls it.
  \<^item> A \<open>decimal(10, 2)\<close> column (a string such as \<open>"25.00"\<close>) and a price of a line
    item are counted in hundredths, as an \<open>int\<close>; \<open>parseFloat\<close> and the floating
    point sums of the source are exact on this scale.
  \<^item> A nullable or optional column is an \<open>option\<close> (\<open>None\<close> for \<open>null\<close> and for
    an absent key). The timestamps that every constructor of the store sets are plain.
  \<^item> A JavaScript \<open>Map\<close> is an association list in insertion order;
    \<open>Map.set\<close> is \<open>AList.update\<close> (replace in place, or append),
    \<open>Map.get\<close> is \<open>map_of\<close>, \<open>Map.delete\<close> is \<open>AList.delete\<close>.
  \<^item> A \<open>throw\<close> is the left injection of the result; the store is returned beside it,
    since the mutations made before the \<open>throw\<close> stay.
\<close>

type_synonym uuid = nat

subsection \<open>shared/schema.ts\<close>

record product =
  p_id :: uuid
  p_name :: string
  barcode :: "string option"
  p_price :: int
  costPrice :: "int option"
  category :: string
  brand :: "string option"
  p_description :: "string option"
  stock :: "int option"
  minStock :: "int option"
  maxStock :: "int option"
  unit :: "string option"
  expiryDate :: "int option"
  p_isActive :: "bool option"
  p_createdAt :: int
  p_updatedAt :: int

text \<open>\<open>InsertProduct\<close>: the product without \<open>id\<close>, \<open>createdAt\<close>, \<open>updatedAt\<close>.\<close>

record insertProduct =
  ip_name :: string
  ip_barcode :: "string option"
  ip_price :: int
  ip_costPrice :: "int option"
  ip_category :: string
  ip_brand :: "string option"
  ip_description :: "string option"
  ip_stock :: "int option"
  ip_minStock :: "int option"
  ip_maxStock :: "int option"
  ip_unit :: "string option"
  ip_expiryDate :: "int option"
  ip_isActive :: "bool option"

text \<open>
  \<open>Partial<InsertProduct>\<close>: every key may be absent (\<open>None\<close>); a key that is present
  carries a value of the column's type, \<open>null\<close> included.
\<close>

record partialInsertProduct =
  pp_name :: "string option"
  pp_barcode :: "string option option"
  pp_price :: "int option"
  pp_costPrice :: "int option option"
  pp_category :: "string option"
  pp_brand :: "string option option"
  pp_description :: "string option option"
  pp_stock :: "int option option"
  pp_minStock :: "int option option"
  pp_maxStock :: "int option option"
  pp_unit :: "string option option"
  pp_expiryDate :: "int option option"
  pp_isActive :: "bool option option"

text \<open>An element of the \<open>items\<close> JSON array: \<open>{productId, quantity, price, name}\<close>.\<close>

record item =
  i_productId :: uuid
  i_name :: string
  i_price :: int
  i_quantity :: int

record transaction =
  t_id :: uuid
  transactionNumber :: string
  items :: "item list"
  totalAmount :: int
  discount :: "int option"
  tax :: "int option"
  paymentMethod :: string
  customerName :: "string option"
  customerPhone :: "string option"
  status :: "string option"
  t_createdAt :: int

text \<open>\<open>InsertTransaction\<close>: the transaction without \<open>id\<close> and \<open>createdAt\<close>.\<close>

record insertTransaction =
  it_transactionNumber :: string
  it_items :: "item list"
  it_totalAmount :: int
  it_discount :: "int option"
  it_tax :: "int option"
  it_paymentMethod :: string
  it_customerName :: "string option"
  it_customerPhone :: "string option"
  it_status :: "string option"

record category_rec =
  c_id :: uuid
  c_name :: string
  c_description :: "string option"
  c_isActive :: "bool option"
  c_createdAt :: int

record insertCategory =
  ic_name :: string
  ic_description :: "string option"
  ic_isActive :: "bool option"

record inventoryMovement =
  m_id :: uuid
  m_productId :: uuid
  m_type :: string
  m_quantity :: int
  previousStock :: int
  newStock :: int
  reason :: "string option"
  transactionId :: "uuid option"
  m_createdAt :: int

record insertInventoryMovement =
  im_productId :: uuid
  im_type :: string
  im_quantity :: int
  im_previousStock :: int
  im_newStock :: int
  im_reason :: "string option"
  im_transactionId :: "uuid option"

record shopSettings_rec =
  s_id :: uuid
  shopName :: string
  ownerName :: string
  address :: "string option"
  phone :: "string option"
  email :: "string option"
  gstNumber :: "string option"
  currency :: "string option"
  timezone :: "string option"
  receiptFooter :: "string option"
  isOfflineMode :: "bool option"
  lastSyncAt :: "int option"
  s_createdAt :: int
  s_updatedAt :: int

record partialInsertShopSettings =
  ps_shopName :: "string option"
  ps_ownerName :: "string option"
  ps_address :: "string option option"
  ps_phone :: "string option option"
  ps_email :: "string option option"
  ps_gstNumber :: "string option option"
  ps_currency :: "string option option"
  ps_timezone :: "string option option"
  ps_receiptFooter :: "string option option"
  ps_isOfflineMode :: "bool option option"
  ps_lastSyncAt :: "int option option"

subsection \<open>server/storage.ts: the state of \<open>MemStorage\<close>\<close>

record storage =
  products :: "(uuid \<times> product) list"
  transactions :: "(uuid \<times> transaction) list"
  categories :: "(uuid \<times> category_rec) list"
  inventoryMovements :: "(uuid \<times> inventoryMovement) list"
  shopSettings :: "shopSettings_rec option"
  transactionCounter :: nat

datatype error = ProductNotFound | ShopSettingsNotFound

text \<open>\<open>x || d\<close> on a nullable number: \<open>null\<close>, \<open>undefined\<close> and \<open>0\<close> are falsy.\<close>

fun orElse :: "int option \<Rightarrow> int \<Rightarrow> int" where
  "orElse None d = d"
| "orElse (Some n) d = (if n = 0 then d else n)"

text \<open>
  Numbers. A JavaScript number that holds an integer is an \<open>int\<close>. Comparison, negation,
  \<open>Math.abs\<close> and \<open>Math.max\<close> are exact on them; \<open>a + b\<close> is the addition of
  doubles, that is the exact sum rounded to 53 significant bits, to the nearest and to
  the even one of two that are as near (\<open>spacing m 1\<close> is the distance between the
  doubles next to an integer of magnitude \<open>m\<close>). Up to \<open>2^53\<close> in magnitude every
  integer is a double and the sum is exact; above, only the integers \<open>x\<close> with
  \<open>roundToDouble x = x\<close> are numbers the code can hold. (A sum of magnitude
  \<open>2^1024\<close> or more, which the runtime gives as \<open>Infinity\<close>, has no value of this
  type and is outside the model.)
\<close>

function spacing :: "int \<Rightarrow> int \<Rightarrow> int" where
  "spacing m q = (if m < 2 ^ 53 then q else spacing (m div 2) (2 * q))"
  by pat_completeness auto
termination
  by (relation "measure (\<lambda>(m, q). nat m)") auto

declare spacing.simps [simp del]

definition roundToDouble :: "int \<Rightarrow> int" where
  "roundToDouble x =
     (if \<bar>x\<bar> \<le> 2 ^ 53 then x
      else (let q = spacing \<bar>x\<bar> 1;
                lo = (x div q) * q;
                r = x - lo
            in if 2 * r < q then lo
               else if q < 2 * r then lo + q
               else if even (x div q) then lo else lo + q))"

definition jsAdd :: "int \<Rightarrow> int \<Rightarrow> int" where
  "jsAdd a b = roundToDouble (a + b)"

text \<open>A key of a spread \<open>{...existing, ...updateData}\<close>: the later object wins where it has the key.\<close>

fun spread :: "'a \<Rightarrow> 'a option \<Rightarrow> 'a" where
  "spread old None = old"
| "spread old (Some v) = v"

definition getProduct :: "uuid \<Rightarrow> storage \<Rightarrow> product option" where
  "getProduct ident st = map_of (products st) ident"

definition getProducts :: "storage \<Rightarrow> product list" where
  "getProducts st = map snd (products st)"

definition getProductByBarcode :: "string \<Rightarrow> storage \<Rightarrow> product option" where
  "getProductByBarcode b st = List.find (\<lambda>p. barcode p = Some b) (map snd (products st))"

definition createProduct ::
  "int \<Rightarrow> uuid \<Rightarrow> insertProduct \<Rightarrow> storage \<Rightarrow> (error + product) \<times> storage" where
  "createProduct now uid ins st =
     (let product = \<lparr> p_id = uid, p_name = ip_name ins, barcode = ip_barcode ins,
            p_price = ip_price ins, costPrice = ip_costPrice ins, category = ip_category ins,
            brand = ip_brand ins, p_description = ip_description ins, stock = ip_stock ins,
            minStock = ip_minStock ins, maxStock = ip_maxStock ins, unit = ip_unit ins,
            expiryDate = ip_expiryDate ins, p_isActive = ip_isActive ins,
            p_createdAt = now, p_updatedAt = now \<rparr>
      in (Inr product, st\<lparr>products := AList.update (p_id product) product (products st)\<rparr>))"

definition updateProduct ::
  "int \<Rightarrow> uuid \<Rightarrow> partialInsertProduct \<Rightarrow> storage \<Rightarrow> (error + product) \<times> storage" where
  "updateProduct now ident updateData st =
     (case map_of (products st) ident of
        None \<Rightarrow> (Inl ProductNotFound, st)
      | Some existing \<Rightarrow>
          (let updated = \<lparr> p_id = p_id existing,
                 p_name = spread (p_name existing) (pp_name updateData),
                 barcode = spread (barcode existing) (pp_barcode updateData),
                 p_price = spread (p_price existing) (pp_price updateData),
                 costPrice = spread (costPrice existing) (pp_costPrice updateData),
                 category = spread (category existing) (pp_category updateData),
                 brand = spread (brand existing) (pp_brand updateData),
                 p_description = spread (p_description existing) (pp_description updateData),
                 stock = spread (stock existing) (pp_stock updateData),
                 minStock = spread (minStock existing) (pp_minStock updateData),
                 maxStock = spread (maxStock existing) (pp_maxStock updateData),
                 unit = spread (unit existing) (pp_unit updateData),
                 expiryDate = spread (expiryDate existing) (pp_expiryDate updateData),
                 p_isActive = spread (p_isActive existing) (pp_isActive updateData),
                 p_createdAt = p_createdAt existing,
                 p_updatedAt = now \<rparr>
           in (Inr updated, st\<lparr>products := AList.update ident updated (products st)\<rparr>)))"

definition deleteProduct :: "uuid \<Rightarrow> storage \<Rightarrow> (error + unit) \<times> storage" where
  "deleteProduct ident st = (Inr (), st\<lparr>products := AList.delete ident (products st)\<rparr>)"

definition updateStock ::
  "int \<Rightarrow> uuid \<Rightarrow> uuid \<Rightarrow> int \<Rightarrow> storage \<Rightarrow> (error + unit) \<times> storage" where
  "updateStock now uid productId quantity st =
     (case map_of (products st) productId of
        None \<Rightarrow> (Inl ProductNotFound, st)
      | Some product \<Rightarrow>
          (let previous = orElse (stock product) 0;
               new = max 0 (jsAdd previous quantity);
               updated = product\<lparr>stock := Some new, p_updatedAt := now\<rparr>;
               st1 = st\<lparr>products := AList.update productId updated (products st)\<rparr>;
               movement = \<lparr> m_id = uid, m_productId = productId,
                 m_type = (if quantity > 0 then ''purchase'' else ''sale''),
                 m_quantity = \<bar>quantity\<bar>,
                 previousStock = previous, newStock = new,
                 reason = Some (if quantity > 0 then ''Stock added'' else ''Sale''),
                 transactionId = None, m_createdAt = now \<rparr>
           in (Inr (),
               st1\<lparr>inventoryMovements :=
                     AList.update (m_id movement) movement (inventoryMovements st1)\<rparr>)))"

text \<open>
  The constructor: \<open>seedData()\<close> fills the three maps and the settings; the counter
  starts at 1. \<open>ids k\<close> is the result of the \<open>k\<close>-th call of \<open>randomUUID()\<close>.
\<close>

definition msPerDay :: int where
  "msPerDay = 24 * 60 * 60 * 1000"

definition seedData :: "int \<Rightarrow> (nat \<Rightarrow> uuid) \<Rightarrow> storage" where
  "seedData now ids =
     (let beveragesCategory = \<lparr> c_id = ids 0, c_name = ''Beverages'',
            c_description = Some ''Cold drinks and beverages'', c_isActive = Some True,
            c_createdAt = now \<rparr>;
          snacksCategory = \<lparr> c_id = ids 1, c_name = ''Snacks'',
            c_description = Some ''Snacks and quick bites'', c_isActive = Some True,
            c_createdAt = now \<rparr>;
          personalCareCategory = \<lparr> c_id = ids 2, c_name = ''Personal Care'',
            c_description = Some ''Personal hygiene and care products'', c_isActive = Some True,
            c_createdAt = now \<rparr>;
          cats = AList.update (c_id personalCareCategory) personalCareCategory
                   (AList.update (c_id snacksCategory) snacksCategory
                     (AList.update (c_id beveragesCategory) beveragesCategory []));
          prods = [
            \<lparr> p_id = ids 3, p_name = ''Coca Cola 600ml'', barcode = Some ''8901030001234'',
              p_price = 2500, costPrice = Some 2000, category = ''Beverages'',
              brand = Some ''Coca Cola'', p_description = Some ''Refreshing cola drink'',
              stock = Some 45, minStock = Some 10, maxStock = Some 100, unit = Some ''bottle'',
              expiryDate = Some (now + 90 * msPerDay), p_isActive = Some True,
              p_createdAt = now, p_updatedAt = now \<rparr>,
            \<lparr> p_id = ids 4, p_name = ''Maggi 2-Minute Noodles'', barcode = Some ''8901030002345'',
              p_price = 1200, costPrice = Some 1000, category = ''Snacks'',
              brand = Some ''Nestle'', p_description = Some ''Instant noodles'',
              stock = Some 8, minStock = Some 10, maxStock = Some 50, unit = Some ''packet'',
              expiryDate = Some (now + 180 * msPerDay), p_isActive = Some True,
              p_createdAt = now, p_updatedAt = now \<rparr>,
            \<lparr> p_id = ids 5, p_name = ''Colgate Toothpaste'', barcode = Some ''8901030003456'',
              p_price = 4500, costPrice = Some 3500, category = ''Personal Care'',
              brand = Some ''Colgate'', p_description = Some ''Dental care toothpaste'',
              stock = Some 3, minStock = Some 5, maxStock = Some 25, unit = Some ''tube'',
              expiryDate = Some (now + 365 * msPerDay), p_isActive = Some True,
              p_createdAt = now, p_updatedAt = now \<rparr>,
            \<lparr> p_id = ids 6, p_name = ''Britannia Biscuits'', barcode = Some ''8901030004567'',
              p_price = 2000, costPrice = Some 1500, category = ''Snacks'',
              brand = Some ''Britannia'', p_description = Some ''Cream biscuits'',
              stock = Some 38, minStock = Some 10, maxStock = Some 60, unit = Some ''packet'',
              expiryDate = Some (now + 60 * msPerDay), p_isActive = Some True,
              p_createdAt = now, p_updatedAt = now \<rparr> ]
      in \<lparr> products = foldl (\<lambda>m product. AList.update (p_id product) product m) [] prods,
           transactions = [],
           categories = cats,
           inventoryMovements = [],
           shopSettings = Some \<lparr> s_id = ids 7, shopName = ''Ramesh General Store'',
             ownerName = ''Ramesh Kumar'', address = Some ''123 Market Street, Delhi'',
             phone = Some ''+91 98765 43210'', email = Some ''ramesh@store.com'',
             gstNumber = Some ''07AAACR1234A1Z5'', currency = Some ''INR'',
             timezone = Some ''Asia/Kolkata'', receiptFooter = Some ''Thank you for shopping with us!'',
             isOfflineMode = Some False, lastSyncAt = Some now,
             s_createdAt = now, s_updatedAt = now \<rparr>,
           transactionCounter = 1 \<rparr>)"

text \<open>The store a fresh process starts from, at a fixed instant and with the ids 0, 1, 2, ...\<close>

definition now0 :: int where
  "now0 = 1793707200000"

definition store0 :: storage where
  "store0 = seedData now0 (\<lambda>k. k)"

subsection \<open>Transactions\<close>

text \<open>\<open>String(n)\<close> for a non-negative integer, and \<open>s.padStart(n, c)\<close> for a one-character filler.\<close>

definition digitChar :: "nat \<Rightarrow> char" where
  "digitChar d = ''0123456789'' ! d"

fun String_of :: "nat \<Rightarrow> string" where
  "String_of n = (if n < 10 then [digitChar n] else String_of (n div 10) @ [digitChar (n mod 10)])"

declare String_of.simps [simp del]

definition padStart :: "nat \<Rightarrow> char \<Rightarrow> string \<Rightarrow> string" where
  "padStart n c s = replicate (n - length s) c @ s"

definition txnNumber :: "nat \<Rightarrow> string" where
  "txnNumber n = ''TXN'' @ padStart 4 (CHR ''0'') (String_of n)"

text \<open>
  The loop \<open>for (const item of items) await this.updateStock(item.productId, -item.quantity)\<close>;
  \<open>mids j\<close> is the id drawn by \<open>updateStock\<close> for the movement of the \<open>j\<close>-th item.
  The first \<open>throw\<close> leaves the loop with the store as it is then.
\<close>

fun sellItems ::
  "int \<Rightarrow> (nat \<Rightarrow> uuid) \<Rightarrow> nat \<Rightarrow> item list \<Rightarrow> storage \<Rightarrow> (error + unit) \<times> storage" where
  "sellItems now mids j [] st = (Inr (), st)"
| "sellItems now mids j (x # xs) st =
     (case updateStock now (mids j) (i_productId x) (- i_quantity x) st of
        (Inl e, st') \<Rightarrow> (Inl e, st')
      | (Inr _, st') \<Rightarrow> sellItems now mids (Suc j) xs st')"

definition createTransaction ::
  "int \<Rightarrow> uuid \<Rightarrow> (nat \<Rightarrow> uuid) \<Rightarrow> insertTransaction \<Rightarrow> storage
     \<Rightarrow> (error + transaction) \<times> storage" where
  "createTransaction now uid mids ins st =
     (let transaction = \<lparr> t_id = uid,
            transactionNumber = txnNumber (transactionCounter st),
            items = it_items ins, totalAmount = it_totalAmount ins,
            discount = it_discount ins, tax = it_tax ins,
            paymentMethod = it_paymentMethod ins, customerName = it_customerName ins,
            customerPhone = it_customerPhone ins, status = it_status ins,
            t_createdAt = now \<rparr>;
          st1 = st\<lparr>transactionCounter := transactionCounter st + 1\<rparr>
      in case sellItems now mids 0 (it_items ins) st1 of
           (Inl e, st2) \<Rightarrow> (Inl e, st2)
         | (Inr _, st2) \<Rightarrow>
             (Inr transaction,
              st2\<lparr>transactions := AList.update (t_id transaction) transaction (transactions st2)\<rparr>))"

definition getTransaction :: "uuid \<Rightarrow> storage \<Rightarrow> transaction option" where
  "getTransaction ident st = map_of (transactions st) ident"

definition getTransactionsByDateRange :: "int \<Rightarrow> int \<Rightarrow> storage \<Rightarrow> transaction list" where
  "getTransactionsByDateRange startDate endDate st =
     filter (\<lambda>t. t_createdAt t \<ge> startDate \<and> t_createdAt t \<le> endDate) (map snd (transactions st))"

subsection \<open>Categories, movements, settings\<close>

definition createCategory ::
  "int \<Rightarrow> uuid \<Rightarrow> insertCategory \<Rightarrow> storage \<Rightarrow> (error + category_rec) \<times> storage" where
  "createCategory now uid ins st =
     (let category = \<lparr> c_id = uid, c_name = ic_name ins, c_description = ic_description ins,
            c_isActive = ic_isActive ins, c_createdAt = now \<rparr>
      in (Inr category, st\<lparr>categories := AList.update (c_id category) category (categories st)\<rparr>))"

definition createInventoryMovement ::
  "int \<Rightarrow> uuid \<Rightarrow> insertInventoryMovement \<Rightarrow> storage
     \<Rightarrow> (error + inventoryMovement) \<times> storage" where
  "createInventoryMovement now uid ins st =
     (let movement = \<lparr> m_id = uid, m_productId = im_productId ins, m_type = im_type ins,
            m_quantity = im_quantity ins, previousStock = im_previousStock ins,
            newStock = im_newStock ins, reason = im_reason ins,
            transactionId = im_transactionId ins, m_createdAt = now \<rparr>
      in (Inr movement,
          st\<lparr>inventoryMovements := AList.update (m_id movement) movement (inventoryMovements st)\<rparr>))"

definition updateShopSettings ::
  "int \<Rightarrow> partialInsertShopSettings \<Rightarrow> storage \<Rightarrow> (error + shopSettings_rec) \<times> storage" where
  "updateShopSettings now updateData st =
     (case shopSettings st of
        None \<Rightarrow> (Inl ShopSettingsNotFound, st)
      | Some cur \<Rightarrow>
          (let updated = \<lparr> s_id = s_id cur,
                 shopName = spread (shopName cur) (ps_shopName updateData),
                 ownerName = spread (ownerName cur) (ps_ownerName updateData),
                 address = spread (address cur) (ps_address updateData),
                 phone = spread (phone cur) (ps_phone updateData),
                 email = spread (email cur) (ps_email updateData),
                 gstNumber = spread (gstNumber cur) (ps_gstNumber updateData),
                 currency = spread (currency cur) (ps_currency updateData),
                 timezone = spread (timezone cur) (ps_timezone updateData),
                 receiptFooter = spread (receiptFooter cur) (ps_receiptFooter updateData),
                 isOfflineMode = spread (isOfflineMode cur) (ps_isOfflineMode updateData),
                 lastSyncAt = spread (lastSyncAt cur) (ps_lastSyncAt updateData),
                 s_createdAt = s_createdAt cur,
                 s_updatedAt = now \<rparr>
           in (Inr updated, st\<lparr>shopSettings := Some updated\<rparr>)))"

subsection \<open>Analytics: the parts of \<open>getSalesAnalytics\<close> the properties speak of\<close>

text \<open>
  The \<open>Date\<close> methods of the runtime. Local time is UTC plus a fixed offset \<open>tz\<close> (in
  milliseconds; no daylight saving). Two dates have the same \<open>toDateString()\<close> exactly when
  they fall on the same local day; \<open>toISOString().split('T')[0]\<close> is the UTC calendar date,
  given as (year, month, day) of the proleptic Gregorian calendar.
\<close>

definition localDay :: "int \<Rightarrow> int \<Rightarrow> int" where
  "localDay tz t = (t + tz) div msPerDay"

definition civilFromDays :: "int \<Rightarrow> int \<times> int \<times> int" where
  "civilFromDays z0 =
     (let z = z0 + 719468;
          era = z div 146097;
          doe = z - era * 146097;
          yoe = (doe - doe div 1460 + doe div 36524 - doe div 146096) div 365;
          doy = doe - (365 * yoe + yoe div 4 - yoe div 100);
          mp = (5 * doy + 2) div 153;
          d = doy - (153 * mp + 2) div 5 + 1;
          m = (if mp < 10 then mp + 3 else mp - 9);
          y = yoe + era * 400 + (if m \<le> 2 then 1 else 0)
      in (y, m, d))"

definition isoDate :: "int \<Rightarrow> int \<times> int \<times> int" where
  "isoDate t = civilFromDays (t div msPerDay)"

text \<open>\<open>new Date(y, m, d)\<close> of the local date of \<open>now\<close>, and \<open>new Date(y, m, 1)\<close>.\<close>

definition startOfLocalDay :: "int \<Rightarrow> int \<Rightarrow> int" where
  "startOfLocalDay tz now = localDay tz now * msPerDay - tz"

definition startOfLocalMonth :: "int \<Rightarrow> int \<Rightarrow> int" where
  "startOfLocalMonth tz now =
     (case civilFromDays (localDay tz now) of
        (y, m, d) \<Rightarrow> (localDay tz now - (d - 1)) * msPerDay - tz)"

datatype period = Daily | Weekly | Monthly

fun startDate :: "int \<Rightarrow> int \<Rightarrow> period \<Rightarrow> int" where
  "startDate tz now Daily = startOfLocalDay tz now"
| "startDate tz now Weekly = now - 7 * 24 * 60 * 60 * 1000"
| "startDate tz now Monthly = startOfLocalMonth tz now"

definition lowStockItems :: "storage \<Rightarrow> nat" where
  "lowStockItems st =
     length (filter (\<lambda>p. orElse (stock p) 0 < orElse (minStock p) 5) (getProducts st))"

record trendEntry =
  date :: "int \<times> int \<times> int"
  amount :: int

text \<open>The body of the loop \<open>for (let i = 6; i >= 0; i--)\<close>, and the loop from \<open>i\<close> down to 0.\<close>

definition trendEntryAt :: "int \<Rightarrow> int \<Rightarrow> transaction list \<Rightarrow> nat \<Rightarrow> trendEntry" where
  "trendEntryAt tz now txs i =
     (let d = now - int i * 24 * 60 * 60 * 1000;
          dayTransactions = filter (\<lambda>t. localDay tz (t_createdAt t) = localDay tz d) txs
      in \<lparr> date = isoDate d,
           amount = foldl (\<lambda>sum t. sum + totalAmount t) 0 dayTransactions \<rparr>)"

fun trendLoop :: "int \<Rightarrow> int \<Rightarrow> transaction list \<Rightarrow> nat \<Rightarrow> trendEntry list" where
  "trendLoop tz now txs 0 = [trendEntryAt tz now txs 0]"
| "trendLoop tz now txs (Suc i) = trendEntryAt tz now txs (Suc i) # trendLoop tz now txs i"

definition salesTrend :: "int \<Rightarrow> int \<Rightarrow> period \<Rightarrow> storage \<Rightarrow> trendEntry list" where
  "salesTrend tz now period st =
     (let txs = getTransactionsByDateRange (startDate tz now period) now st
      in trendLoop tz now txs 6)"

subsection \<open>The interface as a whole\<close>

text \<open>
  The operations of \<open>IStorage\<close> that write to the store, with their arguments; the reading
  operations return the store as it is. \<open>exec\<close> runs one and keeps the store.
\<close>

datatype operation =
    CreateProduct int uuid insertProduct
  | UpdateProduct int uuid partialInsertProduct
  | DeleteProduct uuid
  | UpdateStock int uuid uuid int
  | CreateTransaction int uuid "nat \<Rightarrow> uuid" insertTransaction
  | CreateCategory int uuid insertCategory
  | CreateInventoryMovement int uuid insertInventoryMovement
  | UpdateShopSettings int partialInsertShopSettings

fun exec :: "operation \<Rightarrow> storage \<Rightarrow> storage" where
  "exec (CreateProduct now uid ins) st = snd (createProduct now uid ins st)"
| "exec (UpdateProduct now ident upd) st = snd (updateProduct now ident upd st)"
| "exec (DeleteProduct ident) st = snd (deleteProduct ident st)"
| "exec (UpdateStock now uid productId quantity) st = snd (updateStock now uid productId quantity st)"
| "exec (CreateTransaction now uid mids ins) st = snd (createTransaction now uid mids ins st)"
| "exec (CreateCategory now uid ins) st = snd (createCategory now uid ins st)"
| "exec (CreateInventoryMovement now uid ins) st = snd (createInventoryMovement now uid ins st)"
| "exec (UpdateShopSettings now upd) st = snd (updateShopSettings now upd st)"

text \<open>
  A run of \<open>createTransaction\<close> calls, one after the other on the same store, with the
  result of each (a \<open>throw\<close> of one call does not stop the process).
\<close>

fun createTransactions ::
  "(int \<times> uuid \<times> (nat \<Rightarrow> uuid) \<times> insertTransaction) list \<Rightarrow> storage
     \<Rightarrow> (error + transaction) list \<times> storage" where
  "createTransactions [] st = ([], st)"
| "createTransactions ((now, uid, mids, ins) # cs) st =
     (case createTransaction now uid mids ins st of
        (r, st') \<Rightarrow> (case createTransactions cs st' of (rs, st'') \<Rightarrow> (r # rs, st'')))"

subsection \<open>Reference computations and sample inputs\<close>

text \<open>
  The total as the specification words it: the sum over the items of unit price times
  quantity, minus the discount (0 when unset), floored at 0.
\<close>

definition spec_totalAmount :: "item list \<Rightarrow> int option \<Rightarrow> int" where
  "spec_totalAmount xs disc =
     max 0 (sum_list (map (\<lambda>x. i_price x * i_quantity x) xs) - (case disc of None \<Rightarrow> 0 | Some d \<Rightarrow> d))"

text \<open>
  The low-stock test and count as the specification words them: a product is low when its
  stock (0 when unset) is below its \<open>minStock\<close> (5 when unset); the count is over the
  active products.
\<close>

definition spec_lowStock :: "product \<Rightarrow> bool" where
  "spec_lowStock p =
     ((case stock p of None \<Rightarrow> 0 | Some n \<Rightarrow> n) < (case minStock p of None \<Rightarrow> 5 | Some m \<Rightarrow> m))"

definition spec_lowStockItems :: "storage \<Rightarrow> nat" where
  "spec_lowStockItems st =
     length (filter (\<lambda>p. p_isActive p = Some True \<and> spec_lowStock p) (getProducts st))"

text \<open>Sample inputs: ids for the movements of a sale, a line item, and a cart payload.\<close>

definition mids0 :: "nat \<Rightarrow> uuid" where
  "mids0 j = 100 + j"

definition line :: "uuid \<Rightarrow> int \<Rightarrow> int \<Rightarrow> item" where
  "line productId price quantity =
     \<lparr> i_productId = productId, i_name = ''item'', i_price = price, i_quantity = quantity \<rparr>"

definition payload :: "item list \<Rightarrow> int \<Rightarrow> string \<Rightarrow> insertTransaction" where
  "payload xs amt method =
     \<lparr> it_transactionNumber = [], it_items = xs, it_totalAmount = amt,
       it_discount = Some 0, it_tax = Some 0, it_paymentMethod = method,
       it_customerName = None, it_customerPhone = None, it_status = Some ''completed'' \<rparr>"

text \<open>Reading a transaction number back: the digits after the three letters, as a number.\<close>

definition digitVal :: "char \<Rightarrow> nat" where
  "digitVal c = of_char c - 48"

definition natOf :: "string \<Rightarrow> nat" where
  "natOf s = foldl (\<lambda>a c. 10 * a + digitVal c) 0 s"

definition txnValue :: "string \<Rightarrow> nat" where
  "txnValue s = natOf (drop 3 s)"

text \<open>
  Three calls in a row on the fresh store: a sale of a product that does not exist, an
  empty sale, and a sale of one unit of the first product.
\<close>

definition threeCalls :: "(int \<times> uuid \<times> (nat \<Rightarrow> uuid) \<times> insertTransaction) list" where
  "threeCalls = [(now0, 8, mids0, payload [line 99 1000 2] 2000 ''cash''),
                 (now0, 9, mids0, payload [] 0 ''cash''),
                 (now0, 10, mids0, payload [line 3 2500 1] 2500 ''cash'')]"

text \<open>A cart with two units of the first product, then an unknown product, then another product.\<close>

definition brokenCart :: insertTransaction where
  "brokenCart = payload [line 3 2500 2, line 99 1000 1, line 4 1200 1] 7200 ''cash''"

text \<open>Update data with no key, with the key \<open>stock\<close> only, and with the key \<open>isActive\<close> only.\<close>

definition noKeys :: partialInsertProduct where
  "noKeys = \<lparr> pp_name = None, pp_barcode = None, pp_price = None, pp_costPrice = None,
     pp_category = None, pp_brand = None, pp_description = None, pp_stock = None,
     pp_minStock = None, pp_maxStock = None, pp_unit = None, pp_expiryDate = None,
     pp_isActive = None \<rparr>"

definition restock :: partialInsertProduct where
  "restock = noKeys\<lparr>pp_stock := Some (Some 999)\<rparr>"

definition deactivate :: partialInsertProduct where
  "deactivate = noKeys\<lparr>pp_isActive := Some (Some False)\<rparr>"

text \<open>A new product that carries the barcode of the first product of the fresh store.\<close>

definition secondCola :: insertProduct where
  "secondCola = \<lparr> ip_name = ''Cola 1l'', ip_barcode = Some ''8901030001234'', ip_price = 4000,
     ip_costPrice = None, ip_category = ''Beverages'', ip_brand = None, ip_description = None,
     ip_stock = Some 10, ip_minStock = None, ip_maxStock = None, ip_unit = None,
     ip_expiryDate = None, ip_isActive = Some True \<rparr>"

text \<open>The store four days after a sale of 25.00 was recorded in the fresh store.\<close>

definition soldEarlier :: storage where
  "soldEarlier =
     snd (createTransaction (now0 - 4 * msPerDay) 8 mids0 (payload [line 3 2500 1] 2500 ''cash'') store0)"

section \<open>Properties\<close>

subsection \<open>Auxiliary facts\<close>

lemma update_fresh: "k \<notin> fst ` set xs \<Longrightarrow> AList.update k v xs = xs @ [(k, v)]"
  by (induction xs) auto

lemma orElse_stock: "orElse s 0 = (case s of None \<Rightarrow> 0 | Some n \<Rightarrow> n)"
  by (cases s) auto

lemma jsAdd_exact: "\<bar>a + b\<bar> \<le> 2 ^ 53 \<Longrightarrow> jsAdd a b = a + b"
  by (simp add: jsAdd_def roundToDouble_def)

lemma store0_product3: "\<exists>p. map_of (products store0) 3 = Some p \<and> stock p = Some 45"
  by (simp add: store0_def seedData_def)

lemma store0_has3: "map_of (products store0) 3 \<noteq> None"
  by (simp add: store0_def seedData_def)

lemma store0_no_product99: "map_of (products store0) 99 = None"
  by (simp add: store0_def seedData_def)

lemma store0_movements: "inventoryMovements store0 = []"
  by (simp add: store0_def seedData_def)

lemma store0_transactions: "transactions store0 = []"
  by (simp add: store0_def seedData_def)

lemma store0_counter: "transactionCounter store0 = 1"
  by (simp add: store0_def seedData_def)

lemma updateStock_absent:
  "(map_of (products (snd (updateStock now uid pid q st))) k = None) = (map_of (products st) k = None)"
  by (auto simp: updateStock_def Let_def update_conv' split: option.splits)

lemma updateStock_fst:
  "fst (updateStock now uid pid q st) =
     (if map_of (products st) pid = None then Inl ProductNotFound else Inr ())"
  by (auto simp: updateStock_def Let_def split: option.splits)

lemma updateStock_transactions:
  "transactions (snd (updateStock now uid pid q st)) = transactions st"
  by (auto simp: updateStock_def Let_def split: option.splits)

lemma updateStock_counter:
  "transactionCounter (snd (updateStock now uid pid q st)) = transactionCounter st"
  by (auto simp: updateStock_def Let_def split: option.splits)

lemma sellItems_step:
  "sellItems now mids j (x # xs) st =
     (if map_of (products st) (i_productId x) = None
      then (Inl ProductNotFound, snd (updateStock now (mids j) (i_productId x) (- i_quantity x) st))
      else sellItems now mids (Suc j) xs
             (snd (updateStock now (mids j) (i_productId x) (- i_quantity x) st)))"
  using updateStock_fst [of now "mids j" "i_productId x" "- i_quantity x" st]
  by (cases "updateStock now (mids j) (i_productId x) (- i_quantity x) st")
     (auto split: sum.splits)

lemma sellItems_fst:
  "fst (sellItems now mids j xs st) =
     (if \<exists>x\<in>set xs. map_of (products st) (i_productId x) = None
      then Inl ProductNotFound else Inr ())"
proof (induction xs arbitrary: j st)
  case Nil
  then show ?case by simp
next
  case (Cons x xs)
  show ?case
    unfolding sellItems_step using Cons.IH by (simp add: updateStock_absent)
qed

lemma sellItems_transactions:
  "transactions (snd (sellItems now mids j xs st)) = transactions st"
proof (induction xs arbitrary: j st)
  case Nil
  then show ?case by simp
next
  case (Cons x xs)
  show ?case
    unfolding sellItems_step using Cons.IH by (simp add: updateStock_transactions)
qed

lemma sellItems_counter:
  "transactionCounter (snd (sellItems now mids j xs st)) = transactionCounter st"
proof (induction xs arbitrary: j st)
  case Nil
  then show ?case by simp
next
  case (Cons x xs)
  show ?case
    unfolding sellItems_step using Cons.IH by (simp add: updateStock_counter)
qed

text \<open>\<open>createTransaction\<close> with the outcome of its loop made explicit.\<close>

lemma createTransaction_unfold:
  "createTransaction now uid mids ins st =
     (let st1 = st\<lparr>transactionCounter := transactionCounter st + 1\<rparr>;
          st2 = snd (sellItems now mids 0 (it_items ins) st1)
      in if \<exists>x\<in>set (it_items ins). map_of (products st) (i_productId x) = None
         then (Inl ProductNotFound, st2)
         else (Inr \<lparr> t_id = uid,
            transactionNumber = txnNumber (transactionCounter st),
            items = it_items ins, totalAmount = it_totalAmount ins,
            discount = it_discount ins, tax = it_tax ins,
            paymentMethod = it_paymentMethod ins, customerName = it_customerName ins,
            customerPhone = it_customerPhone ins, status = it_status ins,
            t_createdAt = now \<rparr>,
            st2\<lparr>transactions := AList.update uid \<lparr> t_id = uid,
            transactionNumber = txnNumber (transactionCounter st),
            items = it_items ins, totalAmount = it_totalAmount ins,
            discount = it_discount ins, tax = it_tax ins,
            paymentMethod = it_paymentMethod ins, customerName = it_customerName ins,
            customerPhone = it_customerPhone ins, status = it_status ins,
            t_createdAt = now \<rparr> (transactions st2)\<rparr>))"
  using sellItems_fst [of now mids 0 "it_items ins"
      "st\<lparr>transactionCounter := transactionCounter st + 1\<rparr>"]
  by (cases "sellItems now mids 0 (it_items ins)
        (st\<lparr>transactionCounter := transactionCounter st + 1\<rparr>)")
     (auto simp: createTransaction_def Let_def split: sum.splits)

lemma createTransaction_persists:
  assumes "\<forall>x\<in>set (it_items ins). map_of (products st) (i_productId x) \<noteq> None"
  shows "fst (createTransaction now uid mids ins st) =
           Inr \<lparr> t_id = uid,
            transactionNumber = txnNumber (transactionCounter st),
            items = it_items ins, totalAmount = it_totalAmount ins,
            discount = it_discount ins, tax = it_tax ins,
            paymentMethod = it_paymentMethod ins, customerName = it_customerName ins,
            customerPhone = it_customerPhone ins, status = it_status ins,
            t_createdAt = now \<rparr>"
    and "map_of (transactions (snd (createTransaction now uid mids ins st))) uid =
           Some \<lparr> t_id = uid,
            transactionNumber = txnNumber (transactionCounter st),
            items = it_items ins, totalAmount = it_totalAmount ins,
            discount = it_discount ins, tax = it_tax ins,
            paymentMethod = it_paymentMethod ins, customerName = it_customerName ins,
            customerPhone = it_customerPhone ins, status = it_status ins,
            t_createdAt = now \<rparr>"
  using assms by (auto simp: createTransaction_unfold Let_def update_conv')

subsection \<open>The stock ledger\<close>

text \<open>
  Claim C1, as amended. For a product \<open>p\<close> of the store and any integer \<open>delta\<close>,
  \<open>updateStock\<close> returns normally and changes no other product; when the sum of the
  current stock of \<open>p\<close> (0 when it is unset) and \<open>delta\<close> is at most \<open>2^53\<close> in
  magnitude, it leaves \<open>p\<close> with the stock \<open>max(0, current + delta)\<close>. For an id that
  is not in the store it throws "Product not found" and the store is the one it started
  from. Beyond \<open>2^53\<close> the sum is the rounded one of the doubles: from the stock 45,
  \<open>delta = 2^53\<close> leaves 9007199254741036, not 9007199254741037.
\<close>

theorem updateStock_clamps_or_not_found:
  "(map_of (products st) pid = Some p \<longrightarrow>
      fst (updateStock now uid pid delta st) = Inr () \<and>
      (\<bar>(case stock p of None \<Rightarrow> 0 | Some n \<Rightarrow> n) + delta\<bar> \<le> 2 ^ 53 \<longrightarrow>
         map_option stock (map_of (products (snd (updateStock now uid pid delta st))) pid)
           = Some (Some (max 0 ((case stock p of None \<Rightarrow> 0 | Some n \<Rightarrow> n) + delta)))) \<and>
      (\<forall>q. q \<noteq> pid \<longrightarrow>
         map_of (products (snd (updateStock now uid pid delta st))) q = map_of (products st) q))
   \<and> (map_of (products st) pid = None \<longrightarrow>
        updateStock now uid pid delta st = (Inl ProductNotFound, st))"
  by (auto simp: updateStock_def Let_def update_conv' orElse_stock jsAdd_exact)

theorem updateStock_clamps_or_not_found_witness:
  "map_of (products store0) 3 \<noteq> None \<and>
   fst (updateStock now0 8 3 5 store0) = Inr () \<and>
   map_option stock (map_of (products (snd (updateStock now0 8 3 5 store0))) 3)
     = Some (Some 50) \<and>
   fst (updateStock now0 8 3 (- 50) store0) = Inr () \<and>
   map_option stock (map_of (products (snd (updateStock now0 8 3 (- 50) store0))) 3)
     = Some (Some 0) \<and>
   map_of (products store0) 99 = None \<and>
   updateStock now0 8 99 (- 50) store0 = (Inl ProductNotFound, store0)"
proof -
  obtain p where p: "map_of (products store0) 3 = Some p" "stock p = Some 45"
    using store0_product3 by blast
  from updateStock_clamps_or_not_found [of store0 3 p now0 8 5] p
  have a: "fst (updateStock now0 8 3 5 store0) = Inr () \<and>
      map_option stock (map_of (products (snd (updateStock now0 8 3 5 store0))) 3)
        = Some (Some 50)"
    by simp
  from updateStock_clamps_or_not_found [of store0 3 p now0 8 "- 50"] p
  have b: "fst (updateStock now0 8 3 (- 50) store0) = Inr () \<and>
      map_option stock (map_of (products (snd (updateStock now0 8 3 (- 50) store0))) 3)
        = Some (Some 0)"
    by simp
  from updateStock_clamps_or_not_found [of store0 99 p now0 8 "- 50"] store0_no_product99
  have c: "updateStock now0 8 99 (- 50) store0 = (Inl ProductNotFound, store0)"
    by simp
  show ?thesis using a b c store0_has3 store0_no_product99 by simp
qed

theorem updateStock_double_rounding_counterexample:
  "map_option stock (map_of (products store0) 3) = Some (Some 45) \<and>
   map_option stock
     (map_of (products (snd (updateStock now0 8 3 9007199254740992 store0))) 3)
     = Some (Some 9007199254741036) \<and>
   max 0 (45 + 9007199254740992) = (9007199254741037 :: int)"
  by code_simp

text \<open>
  Claim C2. For a product \<open>p\<close> of the store and any integer \<open>delta\<close>, one call of
  \<open>updateStock\<close> (drawing an id that no movement has yet) appends exactly one movement to
  the movements there were. Its \<open>previousStock\<close> is the stock of \<open>p\<close> before the call (0
  when unset), its \<open>newStock\<close> the stock of \<open>p\<close> after the call, its \<open>quantity\<close> is
  \<open>abs(delta)\<close>, and its type is "purchase" when \<open>delta > 0\<close> and "sale" otherwise.
  That new stock is the sum of the doubles floored at 0, which is \<open>max(0, previous + delta)\<close>
  while the sum is at most \<open>2^53\<close> in magnitude.
\<close>

theorem updateStock_appends_one_movement:
  assumes "map_of (products st) pid = Some p"
    and "uid \<notin> fst ` set (inventoryMovements st)"
  shows "\<exists>m. inventoryMovements (snd (updateStock now uid pid delta st))
                = inventoryMovements st @ [(uid, m)] \<and>
           m_productId m = pid \<and>
           previousStock m = orElse (stock p) 0 \<and>
           map_option stock (map_of (products (snd (updateStock now uid pid delta st))) pid)
             = Some (Some (newStock m)) \<and>
           newStock m = max 0 (jsAdd (orElse (stock p) 0) delta) \<and>
           (\<bar>orElse (stock p) 0 + delta\<bar> \<le> 2 ^ 53 \<longrightarrow>
              newStock m = max 0 (orElse (stock p) 0 + delta)) \<and>
           m_quantity m = \<bar>delta\<bar> \<and>
           m_type m = (if delta > 0 then ''purchase'' else ''sale'')"
  using assms by (simp add: updateStock_def Let_def update_conv' update_fresh jsAdd_exact)

theorem updateStock_appends_one_movement_witness:
  "map_of (products store0) 3 \<noteq> None \<and>
   8 \<notin> fst ` set (inventoryMovements store0) \<and>
   map fst (inventoryMovements (snd (updateStock now0 8 3 (- 50) store0))) = [8] \<and>
   map (previousStock \<circ> snd) (inventoryMovements (snd (updateStock now0 8 3 (- 50) store0))) = [45] \<and>
   map (newStock \<circ> snd) (inventoryMovements (snd (updateStock now0 8 3 (- 50) store0))) = [0] \<and>
   map (m_quantity \<circ> snd) (inventoryMovements (snd (updateStock now0 8 3 (- 50) store0))) = [50] \<and>
   map (m_type \<circ> snd) (inventoryMovements (snd (updateStock now0 8 3 (- 50) store0))) = [''sale'']"
proof -
  obtain p where p: "map_of (products store0) 3 = Some p" "stock p = Some 45"
    using store0_product3 by blast
  have f: "8 \<notin> fst ` set (inventoryMovements store0)"
    by (simp add: store0_movements)
  from updateStock_appends_one_movement [OF p(1) f, of now0 "- 50"] p(2)
  obtain m where m: "inventoryMovements (snd (updateStock now0 8 3 (- 50) store0)) = [(8, m)]"
      "previousStock m = 45" "newStock m = 0" "m_quantity m = 50" "m_type m = ''sale''"
    by (auto simp: store0_movements)
  show ?thesis using m f store0_has3 by simp
qed

subsection \<open>The transaction processor\<close>

text \<open>
  Claim C3, as amended. \<open>createTransaction\<close> computes no total: when it returns a
  transaction, the \<open>totalAmount\<close>, the items and the discount stored are those of its
  argument, and that transaction is the one persisted under the new id. The stored total
  therefore equals the sum of price times quantity minus the discount, floored at 0,
  exactly when the caller sent that value.
\<close>

theorem createTransaction_stores_given_total:
  assumes "fst (createTransaction now uid mids ins st) = Inr tx"
  shows "totalAmount tx = it_totalAmount ins \<and> items tx = it_items ins \<and>
         discount tx = it_discount ins \<and>
         map_of (transactions (snd (createTransaction now uid mids ins st))) uid = Some tx \<and>
         (totalAmount tx = spec_totalAmount (items tx) (discount tx)) =
           (it_totalAmount ins = spec_totalAmount (it_items ins) (it_discount ins))"
  using assms by (auto simp: createTransaction_unfold Let_def update_conv' split: if_splits)

theorem createTransaction_stores_given_total_witness:
  "isl (fst (createTransaction now0 8 mids0 (payload [line 3 1000 2] 2000 ''cash'') store0)) = False \<and>
   map_option totalAmount
     (map_of (transactions (snd (createTransaction now0 8 mids0
        (payload [line 3 1000 2] 2000 ''cash'') store0))) 8) = Some 2000"
proof -
  have ok: "\<forall>x\<in>set (it_items (payload [line 3 1000 2] 2000 ''cash'')).
               map_of (products store0) (i_productId x) \<noteq> None"
    using store0_has3 by (simp add: payload_def line_def)
  obtain tx where
    tx: "fst (createTransaction now0 8 mids0 (payload [line 3 1000 2] 2000 ''cash'') store0) = Inr tx"
    using createTransaction_persists(1) [OF ok] by blast
  from createTransaction_stores_given_total [OF tx] tx
  show ?thesis by (simp add: payload_def)
qed

theorem createTransaction_total_counterexample:
  "map_option totalAmount
     (map_of (transactions (snd (createTransaction now0 8 mids0
        (payload [line 3 1000 2] 99900 ''cash'') store0))) 8) = Some 99900 \<and>
   map_option items
     (map_of (transactions (snd (createTransaction now0 8 mids0
        (payload [line 3 1000 2] 99900 ''cash'') store0))) 8) = Some [line 3 1000 2] \<and>
   map_option discount
     (map_of (transactions (snd (createTransaction now0 8 mids0
        (payload [line 3 1000 2] 99900 ''cash'') store0))) 8) = Some (Some 0) \<and>
   spec_totalAmount [line 3 1000 2] (Some 0) = 2000"
proof -
  have ok: "\<forall>x\<in>set (it_items (payload [line 3 1000 2] 99900 ''cash'')).
               map_of (products store0) (i_productId x) \<noteq> None"
    using store0_has3 by (simp add: payload_def line_def)
  have "spec_totalAmount [line 3 1000 2] (Some 0) = 2000"
    by (simp add: spec_totalAmount_def line_def)
  with createTransaction_persists(2) [OF ok, of now0 8 mids0] show ?thesis
    by (simp add: payload_def)
qed

text \<open>
  Claim C4, as amended. \<open>createTransaction\<close> throws exactly when some item names a product
  id that is not in the store; the error is "Product not found", and no transaction is
  persisted then. In every other case it returns and persists the transaction: an empty
  items list, a quantity that is not positive, an unknown payment method and an inactive
  product are all accepted.
\<close>

theorem createTransaction_fails_iff_unknown_product:
  "((fst (createTransaction now uid mids ins st) = Inl ProductNotFound) =
      (\<exists>x\<in>set (it_items ins). map_of (products st) (i_productId x) = None))
   \<and> ((\<exists>x\<in>set (it_items ins). map_of (products st) (i_productId x) = None) \<longrightarrow>
        transactions (snd (createTransaction now uid mids ins st)) = transactions st)
   \<and> ((\<forall>x\<in>set (it_items ins). map_of (products st) (i_productId x) \<noteq> None) \<longrightarrow>
        isl (fst (createTransaction now uid mids ins st)) = False \<and>
        map_of (transactions (snd (createTransaction now uid mids ins st))) uid \<noteq> None)"
  by (auto simp: createTransaction_unfold Let_def update_conv' sellItems_transactions)

theorem createTransaction_fails_iff_unknown_product_witness:
  "map_of (products store0) 99 = None \<and>
   fst (createTransaction now0 8 mids0 (payload [line 99 1000 2] 2000 ''cash'') store0)
     = Inl ProductNotFound \<and>
   transactions (snd (createTransaction now0 8 mids0 (payload [line 99 1000 2] 2000 ''cash'') store0))
     = [] \<and>
   map_of (products store0) 3 \<noteq> None \<and>
   isl (fst (createTransaction now0 8 mids0 (payload [line 3 1000 2] 2000 ''cash'') store0)) = False \<and>
   map_of (transactions (snd (createTransaction now0 8 mids0
      (payload [line 3 1000 2] 2000 ''cash'') store0))) 8 \<noteq> None"
proof -
  have bad: "\<exists>x\<in>set (it_items (payload [line 99 1000 2] 2000 ''cash'')).
               map_of (products store0) (i_productId x) = None"
    using store0_no_product99 by (simp add: payload_def line_def)
  have ok: "\<forall>x\<in>set (it_items (payload [line 3 1000 2] 2000 ''cash'')).
               map_of (products store0) (i_productId x) \<noteq> None"
    using store0_has3 by (simp add: payload_def line_def)
  from createTransaction_fails_iff_unknown_product
         [of now0 8 mids0 "payload [line 99 1000 2] 2000 ''cash''" store0] bad
  have a: "fst (createTransaction now0 8 mids0 (payload [line 99 1000 2] 2000 ''cash'') store0)
             = Inl ProductNotFound \<and>
           transactions (snd (createTransaction now0 8 mids0
             (payload [line 99 1000 2] 2000 ''cash'') store0)) = []"
    by (simp add: store0_transactions)
  from createTransaction_fails_iff_unknown_product
         [of now0 8 mids0 "payload [line 3 1000 2] 2000 ''cash''" store0] ok
  have b: "isl (fst (createTransaction now0 8 mids0 (payload [line 3 1000 2] 2000 ''cash'') store0))
             = False \<and>
           map_of (transactions (snd (createTransaction now0 8 mids0
             (payload [line 3 1000 2] 2000 ''cash'') store0))) 8 \<noteq> None"
    by blast
  show ?thesis using a b store0_has3 store0_no_product99 by blast
qed

theorem createTransaction_validation_counterexample:
  "isl (fst (createTransaction now0 8 mids0 (payload [] 0 ''cash'') store0)) = False \<and>
   map_of (transactions (snd (createTransaction now0 8 mids0 (payload [] 0 ''cash'') store0))) 8
     \<noteq> None \<and>
   isl (fst (createTransaction now0 8 mids0 (payload [line 3 2500 (- 4)] 0 ''bitcoin'') store0))
     = False \<and>
   map_of (transactions (snd (createTransaction now0 8 mids0
      (payload [line 3 2500 (- 4)] 0 ''bitcoin'') store0))) 8 \<noteq> None"
proof -
  have ok: "\<forall>x\<in>set (it_items (payload [line 3 2500 (- 4)] 0 ''bitcoin'')).
               map_of (products store0) (i_productId x) \<noteq> None"
    using store0_has3 by (simp add: payload_def line_def)
  have e: "\<forall>x\<in>set (it_items (payload [] 0 ''cash'')).
               map_of (products store0) (i_productId x) \<noteq> None"
    by (simp add: payload_def)
  show ?thesis
    by (simp add: createTransaction_persists [OF ok] createTransaction_persists [OF e])
qed

subsection \<open>A sale that fails part of the way\<close>

lemma updateStock_missing:
  "map_of (products st) pid = None \<Longrightarrow> updateStock now uid pid q st = (Inl ProductNotFound, st)"
  by (simp add: updateStock_def)

lemma sellItems_prefix:
  assumes "\<forall>x\<in>set pre. map_of (products st) (i_productId x) \<noteq> None"
    and "map_of (products st) (i_productId bad) = None"
  shows "sellItems now mids j (pre @ bad # post) st =
           (Inl ProductNotFound, snd (sellItems now mids j pre st))
         \<and> fst (sellItems now mids j pre st) = Inr ()"
  using assms
proof (induction pre arbitrary: j st)
  case Nil
  then show ?case by (simp add: updateStock_missing)
next
  case (Cons x xs)
  have "sellItems now mids (Suc j) (xs @ bad # post)
           (snd (updateStock now (mids j) (i_productId x) (- i_quantity x) st)) =
        (Inl ProductNotFound, snd (sellItems now mids (Suc j) xs
           (snd (updateStock now (mids j) (i_productId x) (- i_quantity x) st))))
        \<and> fst (sellItems now mids (Suc j) xs
           (snd (updateStock now (mids j) (i_productId x) (- i_quantity x) st))) = Inr ()"
    using Cons.prems by (intro Cons.IH) (simp_all add: updateStock_absent)
  then show ?case
    using Cons.prems unfolding append_Cons sellItems_step by simp
qed

lemma updateStock_movement_keys:
  "map_of (products st) pid \<noteq> None \<Longrightarrow> uid \<notin> fst ` set (inventoryMovements st) \<Longrightarrow>
   map fst (inventoryMovements (snd (updateStock now uid pid q st)))
     = map fst (inventoryMovements st) @ [uid]"
  by (auto simp: updateStock_def Let_def update_fresh)

lemma sellItems_movement_keys:
  assumes "\<forall>x\<in>set xs. map_of (products st) (i_productId x) \<noteq> None"
    and "distinct (map mids [j..<j + length xs])"
    and "\<forall>i\<in>{j..<j + length xs}. mids i \<notin> fst ` set (inventoryMovements st)"
  shows "map fst (inventoryMovements (snd (sellItems now mids j xs st)))
           = map fst (inventoryMovements st) @ map mids [j..<j + length xs]"
  using assms
proof (induction xs arbitrary: j st)
  case Nil
  then show ?case by simp
next
  case (Cons x xs)
  let ?st = "snd (updateStock now (mids j) (i_productId x) (- i_quantity x) st)"
  have up: "[j..<j + length (x # xs)] = j # [Suc j..<Suc j + length xs]"
    using upt_conv_Cons [of j "Suc (j + length xs)"] by simp
  have k: "map fst (inventoryMovements ?st) = map fst (inventoryMovements st) @ [mids j]"
    using Cons.prems by (intro updateStock_movement_keys) auto
  have d: "distinct (mids j # map mids [Suc j..<Suc j + length xs])"
    using Cons.prems(2) unfolding up by (simp only: list.map)
  have nj: "mids j \<notin> set (map mids [Suc j..<Suc j + length xs])"
    and d': "distinct (map mids [Suc j..<Suc j + length xs])"
    using d unfolding distinct.simps by blast+
  have r: "map fst (inventoryMovements (snd (sellItems now mids (Suc j) xs ?st)))
           = map fst (inventoryMovements ?st) @ map mids [Suc j..<Suc j + length xs]"
  proof (intro Cons.IH)
    show "\<forall>x\<in>set xs. map_of (products ?st) (i_productId x) \<noteq> None"
      using Cons.prems(1) by (simp add: updateStock_absent)
    show "distinct (map mids [Suc j..<Suc j + length xs])"
      by (rule d')
    show "\<forall>i\<in>{Suc j..<Suc j + length xs}. mids i \<notin> fst ` set (inventoryMovements ?st)"
    proof
      fix i assume i: "i \<in> {Suc j..<Suc j + length xs}"
      then have "i \<in> {j..<j + length (x # xs)}" by simp
      then have a: "mids i \<notin> fst ` set (inventoryMovements st)"
        using Cons.prems(3) by blast
      have "mids i \<in> set (map mids [Suc j..<Suc j + length xs])"
        using i by (simp only: set_map set_upt) (rule imageI)
      then have b: "mids i \<noteq> mids j"
        using nj by metis
      have "fst ` set (inventoryMovements ?st) = set (map fst (inventoryMovements ?st))"
        by simp
      also have "\<dots> = fst ` set (inventoryMovements st) \<union> {mids j}"
        unfolding k by simp
      finally show "mids i \<notin> fst ` set (inventoryMovements ?st)"
        using a b by simp
    qed
  qed
  have present: "map_of (products st) (i_productId x) \<noteq> None"
    using Cons.prems(1) by simp
  have step: "sellItems now mids j (x # xs) st = sellItems now mids (Suc j) xs ?st"
    using present by (simp only: sellItems_step if_False)
  show ?case
    by (simp only: step up r k list.map append.assoc append_Cons append_Nil)
qed

lemma updateStock_stock_same:
  "map_of (products st) pid = Some p \<Longrightarrow>
   map_option stock (map_of (products (snd (updateStock now uid pid q st))) pid)
     = Some (Some (max 0 (jsAdd (orElse (stock p) 0) q)))"
  by (simp add: updateStock_def Let_def update_conv')

lemma updateStock_other:
  "k \<noteq> pid \<Longrightarrow> map_of (products (snd (updateStock now uid pid q st))) k = map_of (products st) k"
  by (auto simp: updateStock_def Let_def update_conv' split: option.splits)

lemma sellItems_other:
  "k \<notin> i_productId ` set xs \<Longrightarrow>
   map_of (products (snd (sellItems now mids j xs st))) k = map_of (products st) k"
proof (induction xs arbitrary: j st)
  case Nil
  then show ?case by simp
next
  case (Cons x xs)
  then have "k \<noteq> i_productId x" and "k \<notin> i_productId ` set xs"
    by auto
  then show ?case
    unfolding sellItems_step using Cons.IH by (simp add: updateStock_other)
qed

lemma sellItems_stock:
  assumes "distinct (map i_productId xs)"
    and "\<forall>y\<in>set xs. map_of (products st) (i_productId y) \<noteq> None"
    and "x \<in> set xs"
    and "map_of (products st) (i_productId x) = Some p"
  shows "map_option stock (map_of (products (snd (sellItems now mids j xs st))) (i_productId x))
           = Some (Some (max 0 (jsAdd (orElse (stock p) 0) (- i_quantity x))))"
  using assms
proof (induction xs arbitrary: j st)
  case Nil
  then show ?case by simp
next
  case (Cons y ys)
  let ?st = "snd (updateStock now (mids j) (i_productId y) (- i_quantity y) st)"
  have present: "map_of (products st) (i_productId y) \<noteq> None"
    using Cons.prems(2) by simp
  have step: "sellItems now mids j (y # ys) st = sellItems now mids (Suc j) ys ?st"
    using present by (simp only: sellItems_step if_False)
  have fresh: "i_productId y \<notin> i_productId ` set ys" and dist: "distinct (map i_productId ys)"
    using Cons.prems(1) by auto
  have pres': "\<forall>z\<in>set ys. map_of (products ?st) (i_productId z) \<noteq> None"
    using Cons.prems(2) by (simp add: updateStock_absent)
  show ?case
  proof (cases "i_productId x = i_productId y")
    case True
    have "map_of (products (snd (sellItems now mids (Suc j) ys ?st))) (i_productId y)
            = map_of (products ?st) (i_productId y)"
      using fresh by (rule sellItems_other)
    moreover have "map_option stock (map_of (products ?st) (i_productId y))
            = Some (Some (max 0 (jsAdd (orElse (stock p) 0) (- i_quantity y))))"
      using Cons.prems(4) True by (intro updateStock_stock_same) simp
    moreover have "x = y"
    proof (rule ccontr)
      assume "x \<noteq> y"
      then have "x \<in> set ys" using Cons.prems(3) by simp
      then have "i_productId x \<in> i_productId ` set ys" by (rule imageI)
      then show False using True fresh by simp
    qed
    ultimately show ?thesis
      unfolding step by simp
  next
    case False
    then have "x \<in> set ys"
      using Cons.prems(3) by auto
    moreover have "map_of (products ?st) (i_productId x) = Some p"
      using False Cons.prems(4) by (simp add: updateStock_other)
    ultimately show ?thesis
      unfolding step using dist pres' by (intro Cons.IH) 
  qed
qed

text \<open>
  Claim C6. When the item at some position of the items list names a product id that is
  not in the store, and every item before it names a product of the store, then
  \<open>createTransaction\<close> throws "Product not found" and persists no transaction, but the
  store it leaves is the one reached by \<open>updateStock\<close> on each of the earlier items, in
  order: one movement per earlier item has been appended (for ids that are new and differ
  from each other), and the stock of each earlier product is the decremented one (stated
  for earlier items on different products; the decrement is the sum of the doubles
  floored at 0, which is \<open>max(0, stock - quantity)\<close> while the difference is at most
  \<open>2^53\<close> in magnitude).
\<close>

theorem createTransaction_keeps_earlier_adjustments:
  assumes "it_items ins = pre @ bad # post"
    and "\<forall>x\<in>set pre. map_of (products st) (i_productId x) \<noteq> None"
    and "map_of (products st) (i_productId bad) = None"
  shows "fst (createTransaction now uid mids ins st) = Inl ProductNotFound \<and>
         transactions (snd (createTransaction now uid mids ins st)) = transactions st \<and>
         sellItems now mids 0 pre (st\<lparr>transactionCounter := transactionCounter st + 1\<rparr>)
           = (Inr (), snd (createTransaction now uid mids ins st)) \<and>
         (distinct (map mids [0..<length pre]) \<and>
          (\<forall>i<length pre. mids i \<notin> fst ` set (inventoryMovements st)) \<longrightarrow>
            map fst (inventoryMovements (snd (createTransaction now uid mids ins st)))
              = map fst (inventoryMovements st) @ map mids [0..<length pre]) \<and>
         (distinct (map i_productId pre) \<longrightarrow>
            (\<forall>x\<in>set pre. \<forall>p. map_of (products st) (i_productId x) = Some p \<longrightarrow>
               map_option stock
                 (map_of (products (snd (createTransaction now uid mids ins st))) (i_productId x))
               = Some (Some (max 0 (jsAdd (orElse (stock p) 0) (- i_quantity x)))) \<and>
               (\<bar>orElse (stock p) 0 - i_quantity x\<bar> \<le> 2 ^ 53 \<longrightarrow>
                  map_option stock
                    (map_of (products (snd (createTransaction now uid mids ins st))) (i_productId x))
                  = Some (Some (max 0 (orElse (stock p) 0 - i_quantity x))))))"
proof -
  let ?st1 = "st\<lparr>transactionCounter := transactionCounter st + 1\<rparr>"
  have pre1: "\<forall>x\<in>set pre. map_of (products ?st1) (i_productId x) \<noteq> None"
    and bad1: "map_of (products ?st1) (i_productId bad) = None"
    using assms(2,3) by simp_all
  have missing: "\<exists>x\<in>set (it_items ins). map_of (products st) (i_productId x) = None"
    using assms(1,3) by auto
  have run: "sellItems now mids 0 (it_items ins) ?st1
               = (Inl ProductNotFound, snd (sellItems now mids 0 pre ?st1))"
    and ok: "fst (sellItems now mids 0 pre ?st1) = Inr ()"
    using sellItems_prefix [OF pre1 bad1, of now mids 0 post] assms(1) by simp_all
  have res: "createTransaction now uid mids ins st
               = (Inl ProductNotFound, snd (sellItems now mids 0 pre ?st1))"
    using missing run by (simp add: createTransaction_unfold Let_def)
  have a: "fst (createTransaction now uid mids ins st) = Inl ProductNotFound"
    by (simp add: res)
  have b: "transactions (snd (createTransaction now uid mids ins st)) = transactions st"
    by (simp add: res sellItems_transactions)
  have c: "sellItems now mids 0 pre ?st1 = (Inr (), snd (createTransaction now uid mids ins st))"
    using ok by (simp add: res prod_eq_iff)
  have d: "map fst (inventoryMovements (snd (createTransaction now uid mids ins st)))
              = map fst (inventoryMovements st) @ map mids [0..<length pre]"
    if "distinct (map mids [0..<length pre])"
      and "\<forall>i<length pre. mids i \<notin> fst ` set (inventoryMovements st)"
    using sellItems_movement_keys [OF pre1, of mids 0 now] that by (simp add: res)
  have e: "map_option stock
             (map_of (products (snd (createTransaction now uid mids ins st))) (i_productId x))
             = Some (Some (max 0 (jsAdd (orElse (stock p) 0) (- i_quantity x))))"
    if "distinct (map i_productId pre)" and "x \<in> set pre"
      and "map_of (products st) (i_productId x) = Some p" for x p
    using sellItems_stock [OF that(1) pre1 that(2), of p now mids 0] that(3) by (simp add: res)
  have f: "map_option stock
             (map_of (products (snd (createTransaction now uid mids ins st))) (i_productId x))
             = Some (Some (max 0 (orElse (stock p) 0 - i_quantity x)))"
    if "distinct (map i_productId pre)" and "x \<in> set pre"
      and "map_of (products st) (i_productId x) = Some p"
      and "\<bar>orElse (stock p) 0 - i_quantity x\<bar> \<le> 2 ^ 53" for x p
    using e [OF that(1,2,3)] jsAdd_exact [of "orElse (stock p) 0" "- i_quantity x"] that(4)
    by simp
  show ?thesis
    using a b c d e f by blast
qed


theorem createTransaction_keeps_earlier_adjustments_witness:
  "it_items brokenCart = [line 3 2500 2] @ line 99 1000 1 # [line 4 1200 1] \<and>
   map_of (products store0) (i_productId (line 3 2500 2)) \<noteq> None \<and>
   map_of (products store0) (i_productId (line 99 1000 1)) = None \<and>
   fst (createTransaction now0 8 mids0 brokenCart store0) = Inl ProductNotFound \<and>
   transactions (snd (createTransaction now0 8 mids0 brokenCart store0)) = [] \<and>
   map fst (inventoryMovements (snd (createTransaction now0 8 mids0 brokenCart store0))) = [100] \<and>
   map_option stock (map_of (products (snd (createTransaction now0 8 mids0 brokenCart store0))) 3)
     = Some (Some 43)"
proof -
  obtain p where p: "map_of (products store0) 3 = Some p" "stock p = Some 45"
    using store0_product3 by blast
  have i: "it_items brokenCart = [line 3 2500 2] @ line 99 1000 1 # [line 4 1200 1]"
    by (simp add: brokenCart_def payload_def)
  have h1: "\<forall>x\<in>set [line 3 2500 2]. map_of (products store0) (i_productId x) \<noteq> None"
    using store0_has3 by (simp add: line_def)
  have h2: "map_of (products store0) (i_productId (line 99 1000 1)) = None"
    using store0_no_product99 by (simp add: line_def)
  note r = createTransaction_keeps_earlier_adjustments [OF i h1 h2, of now0 8 mids0]
  have a: "fst (createTransaction now0 8 mids0 brokenCart store0) = Inl ProductNotFound"
    and b: "transactions (snd (createTransaction now0 8 mids0 brokenCart store0)) = []"
    using r by (simp_all add: store0_transactions)
  have c: "map fst (inventoryMovements (snd (createTransaction now0 8 mids0 brokenCart store0)))
             = [100]"
    using r by (simp add: store0_movements mids0_def)
  have "map_option stock (map_of (products (snd (createTransaction now0 8 mids0 brokenCart store0)))
          (i_productId (line 3 2500 2)))
          = Some (Some (max 0 (orElse (stock p) 0 - i_quantity (line 3 2500 2))))"
    using r p by (simp add: line_def)
  then have d: "map_option stock
          (map_of (products (snd (createTransaction now0 8 mids0 brokenCart store0))) 3)
          = Some (Some 43)"
    using p(2) by (simp add: line_def)
  show ?thesis
    using i h1 h2 a b c d by simp
qed

subsection \<open>Transaction numbers\<close>

lemma digitVal_digitChar: "d < 10 \<Longrightarrow> digitVal (digitChar d) = d"
proof -
  assume "d < 10"
  then have "d = 0 \<or> d = 1 \<or> d = 2 \<or> d = 3 \<or> d = 4 \<or> d = 5 \<or> d = 6 \<or> d = 7 \<or> d = 8 \<or> d = 9"
    by arith
  then show ?thesis
    by (elim disjE) (simp_all add: digitVal_def digitChar_def)
qed

lemma natOf_snoc: "natOf (s @ [c]) = 10 * natOf s + digitVal c"
  by (simp add: natOf_def)

lemma natOf_String_of: "natOf (String_of n) = n"
proof (induction n rule: String_of.induct)
  case (1 n)
  show ?case
  proof (cases "n < 10")
    case True
    then show ?thesis
      by (subst String_of.simps) (simp add: natOf_def digitVal_digitChar)
  next
    case False
    then have "natOf (String_of (n div 10)) = n div 10"
      by (rule "1.IH")
    with False show ?thesis
      by (subst String_of.simps) (simp add: natOf_snoc digitVal_digitChar)
  qed
qed

lemma natOf_zeros: "foldl (\<lambda>a c. 10 * a + digitVal c) 0 (replicate k (CHR ''0'')) = 0"
  by (induction k) (simp_all add: digitVal_def)

lemma natOf_padStart: "natOf (padStart k (CHR ''0'') s) = natOf s"
  by (simp add: natOf_def padStart_def natOf_zeros)

lemma txnValue_txnNumber: "txnValue (txnNumber n) = n"
  by (simp add: txnValue_def txnNumber_def natOf_padStart natOf_String_of)

lemma createTransaction_counter:
  "transactionCounter (snd (createTransaction now uid mids ins st)) = transactionCounter st + 1"
  by (simp add: createTransaction_unfold Let_def sellItems_counter)

lemma createTransaction_number:
  "fst (createTransaction now uid mids ins st) = Inr tx \<Longrightarrow>
   transactionNumber tx = txnNumber (transactionCounter st)"
  by (auto simp: createTransaction_unfold Let_def split: if_splits)

lemma createTransactions_Cons:
  "createTransactions ((now, uid, mids, ins) # cs) st =
     (fst (createTransaction now uid mids ins st)
        # fst (createTransactions cs (snd (createTransaction now uid mids ins st))),
      snd (createTransactions cs (snd (createTransaction now uid mids ins st))))"
  by (simp split: prod.splits)

lemma createTransactions_length: "length (fst (createTransactions cs st)) = length cs"
proof (induction cs arbitrary: st)
  case Nil
  then show ?case by simp
next
  case (Cons c cs)
  obtain now uid mids ins where c: "c = (now, uid, mids, ins)"
    by (cases c) auto
  show ?case
    unfolding c createTransactions_Cons using Cons.IH by simp
qed

lemma createTransactions_nth:
  "i < length cs \<Longrightarrow> fst (createTransactions cs st) ! i = Inr tx \<Longrightarrow>
   transactionNumber tx = txnNumber (transactionCounter st + i)"
proof (induction cs arbitrary: i st)
  case Nil
  then show ?case by simp
next
  case (Cons c cs)
  obtain now uid mids ins where c: "c = (now, uid, mids, ins)"
    by (cases c) auto
  show ?case
  proof (cases i)
    case 0
    with Cons.prems show ?thesis
      unfolding c createTransactions_Cons by (simp add: createTransaction_number)
  next
    case (Suc k)
    with Cons.prems have "k < length cs"
      and "fst (createTransactions cs (snd (createTransaction now uid mids ins st))) ! k = Inr tx"
      unfolding c createTransactions_Cons by simp_all
    then have "transactionNumber tx
        = txnNumber (transactionCounter (snd (createTransaction now uid mids ins st)) + k)"
      by (rule Cons.IH)
    then show ?thesis
      using Suc by (simp add: createTransaction_counter)
  qed
qed

text \<open>
  Claim C7, as amended. In a run of \<open>createTransaction\<close> calls, the call at position
  \<open>i\<close> (from 0), when it returns a transaction, gives it the number "TXN" followed by
  the counter at the start of the run plus \<open>i\<close>, padded with zeros to four digits: the
  calls that throw use up a number too. The numbers of the transactions created grow
  strictly with the position of the call, so no two of them are equal.
\<close>

theorem transaction_numbers_follow_call_count:
  "(i < length cs \<and> fst (createTransactions cs st) ! i = Inr a \<longrightarrow>
      transactionNumber a = txnNumber (transactionCounter st + i) \<and>
      txnValue (transactionNumber a) = transactionCounter st + i)
   \<and> (i < j \<and> j < length cs \<and> fst (createTransactions cs st) ! i = Inr a \<and>
        fst (createTransactions cs st) ! j = Inr b \<longrightarrow>
          txnValue (transactionNumber a) < txnValue (transactionNumber b) \<and>
          transactionNumber a \<noteq> transactionNumber b)"
proof -
  have one: "transactionNumber t = txnNumber (transactionCounter st + k) \<and>
             txnValue (transactionNumber t) = transactionCounter st + k"
    if "k < length cs" and "fst (createTransactions cs st) ! k = Inr t" for k t
    using createTransactions_nth [OF that] by (simp add: txnValue_txnNumber)
  have two: "txnValue (transactionNumber a) < txnValue (transactionNumber b) \<and>
             transactionNumber a \<noteq> transactionNumber b"
    if "i < j" and "j < length cs" and "fst (createTransactions cs st) ! i = Inr a"
      and "fst (createTransactions cs st) ! j = Inr b"
  proof -
    have "i < length cs" using that(1,2) by simp
    then have "txnValue (transactionNumber a) = transactionCounter st + i"
      using one that(3) by blast
    moreover have "txnValue (transactionNumber b) = transactionCounter st + j"
      using one that(2,4) by blast
    ultimately have "txnValue (transactionNumber a) < txnValue (transactionNumber b)"
      using that(1) by simp
    then show ?thesis by auto
  qed
  show ?thesis using one two by blast
qed

lemma txn2: "txnNumber 2 = ''TXN0002''"
  by (simp add: txnNumber_def padStart_def digitChar_def String_of.simps eval_nat_numeral)

lemma txn3: "txnNumber 3 = ''TXN0003''"
  by (simp add: txnNumber_def padStart_def digitChar_def String_of.simps eval_nat_numeral)

lemma sellItems_absent:
  "(map_of (products (snd (sellItems now mids j xs st))) k = None) = (map_of (products st) k = None)"
proof (induction xs arbitrary: j st)
  case Nil
  then show ?case by simp
next
  case (Cons x xs)
  show ?case
    unfolding sellItems_step using Cons.IH by (simp add: updateStock_absent)
qed

lemma createTransaction_absent:
  "(map_of (products (snd (createTransaction now uid mids ins st))) k = None)
     = (map_of (products st) k = None)"
  by (simp add: createTransaction_unfold Let_def sellItems_absent)

text \<open>The three calls, one by one.\<close>

lemma threeCalls_results:
  "fst (createTransactions threeCalls store0) ! 0 = Inl ProductNotFound"
  "\<exists>tx. fst (createTransactions threeCalls store0) ! 1 = Inr tx \<and>
         transactionNumber tx = ''TXN0002''"
  "\<exists>tx. fst (createTransactions threeCalls store0) ! 2 = Inr tx \<and>
         transactionNumber tx = ''TXN0003''"
proof -
  let ?c1 = "createTransaction now0 8 mids0 (payload [line 99 1000 2] 2000 ''cash'') store0"
  let ?c2 = "createTransaction now0 9 mids0 (payload [] 0 ''cash'') (snd ?c1)"
  have bad: "\<exists>x\<in>set (it_items (payload [line 99 1000 2] 2000 ''cash'')).
               map_of (products store0) (i_productId x) = None"
    using store0_no_product99 by (simp add: payload_def line_def)
  have r1: "fst ?c1 = Inl ProductNotFound"
    using bad by (simp add: createTransaction_unfold Let_def)
  have c1: "transactionCounter (snd ?c1) = 2"
    by (simp add: createTransaction_counter store0_counter)
  have c2: "transactionCounter (snd ?c2) = 3"
    by (simp add: createTransaction_counter store0_counter)
  have e: "\<forall>x\<in>set (it_items (payload [] 0 ''cash'')).
             map_of (products (snd ?c1)) (i_productId x) \<noteq> None"
    by (simp add: payload_def)
  have h: "\<forall>x\<in>set (it_items (payload [line 3 2500 1] 2500 ''cash'')).
             map_of (products (snd ?c2)) (i_productId x) \<noteq> None"
    using store0_has3 by (simp add: payload_def line_def createTransaction_absent)
  show "fst (createTransactions threeCalls store0) ! 0 = Inl ProductNotFound"
    unfolding threeCalls_def createTransactions_Cons using r1 by simp
  show "\<exists>tx. fst (createTransactions threeCalls store0) ! 1 = Inr tx \<and>
         transactionNumber tx = ''TXN0002''"
    unfolding threeCalls_def createTransactions_Cons
    by (simp add: createTransaction_persists(1) [OF e] c1 txn2)
  show "\<exists>tx. fst (createTransactions threeCalls store0) ! 2 = Inr tx \<and>
         transactionNumber tx = ''TXN0003''"
    unfolding threeCalls_def createTransactions_Cons
    by (simp add: createTransaction_persists(1) [OF h] c2 txn3)
qed

lemma threeCalls_length: "length (fst (createTransactions threeCalls store0)) = 3"
  by (simp only: createTransactions_length) (simp add: threeCalls_def)

theorem transaction_number_gap_counterexample:
  "map (map_sum id transactionNumber) (fst (createTransactions threeCalls store0))
     = [Inl ProductNotFound, Inr ''TXN0002'', Inr ''TXN0003'']"
  using threeCalls_results threeCalls_length
  by (auto simp: list_eq_iff_nth_eq less_Suc_eq eval_nat_numeral)

theorem transaction_numbers_follow_call_count_witness:
  "length threeCalls = 3 \<and>
   map (map_sum id (txnValue \<circ> transactionNumber)) (fst (createTransactions threeCalls store0))
     = [Inl ProductNotFound, Inr 2, Inr 3]"
proof -
  have l: "length threeCalls = 3" by (simp add: threeCalls_def)
  obtain t1 where t1: "fst (createTransactions threeCalls store0) ! 1 = Inr t1"
    using threeCalls_results(2) by blast
  obtain t2 where t2: "fst (createTransactions threeCalls store0) ! 2 = Inr t2"
    using threeCalls_results(3) by blast
  have v1: "txnValue (transactionNumber t1) = 2"
    and lt: "txnValue (transactionNumber t1) < txnValue (transactionNumber t2)"
    using transaction_numbers_follow_call_count [of 1 threeCalls store0 t1 2 t2] t1 t2 l
    by (simp_all add: store0_counter txnValue_txnNumber)
  have v2: "txnValue (transactionNumber t2) = 3"
    using transaction_numbers_follow_call_count [of 2 threeCalls store0 t2 2 t2] t2 l
    by (simp add: store0_counter txnValue_txnNumber)
  have "map (map_sum id (txnValue \<circ> transactionNumber)) (fst (createTransactions threeCalls store0))
     = [Inl ProductNotFound, Inr 2, Inr 3]"
    using threeCalls_results(1) t1 t2 v1 v2 threeCalls_length
    by (auto simp: list_eq_iff_nth_eq less_Suc_eq eval_nat_numeral)
  then show ?thesis using l by simp
qed

subsection \<open>Direct writes to the stock\<close>

lemma createTransaction_products:
  "products (snd (createTransaction now uid mids ins st))
     = products (snd (sellItems now mids 0 (it_items ins)
         (st\<lparr>transactionCounter := transactionCounter st + 1\<rparr>)))"
  by (simp add: createTransaction_unfold Let_def)

lemma createTransaction_other:
  assumes "k \<notin> i_productId ` set (it_items ins)"
  shows "map_of (products (snd (createTransaction now uid mids ins st))) k = map_of (products st) k"
  unfolding createTransaction_products using sellItems_other [OF assms] by simp

text \<open>
  Claim C5, as amended. When one operation of the interface changes the stock of a product
  that is in the store before and after it, the operation is \<open>updateStock\<close> on that
  product, or \<open>createTransaction\<close> with an item of that product (which goes through
  \<open>updateStock\<close>), or \<open>updateProduct\<close> on that product with update data that has the
  key \<open>stock\<close>: this one sets the stock to the value sent and appends no movement. The
  last case is \<open>createProduct\<close> drawing the id of that product, which replaces it.
\<close>

theorem stock_changes_only_by_ledger_or_updateProduct:
  assumes "map_of (products st) pid = Some p"
    and "map_of (products (exec op st)) pid = Some p'"
    and "stock p' \<noteq> stock p"
  shows "(\<exists>now uid q. op = UpdateStock now uid pid q)
       \<or> (\<exists>now uid mids ins. op = CreateTransaction now uid mids ins \<and>
             pid \<in> i_productId ` set (it_items ins))
       \<or> (\<exists>now upd. op = UpdateProduct now pid upd \<and> pp_stock upd = Some (stock p') \<and>
             inventoryMovements (exec op st) = inventoryMovements st)
       \<or> (\<exists>now ins. op = CreateProduct now pid ins \<and> ip_stock ins = stock p' \<and>
             inventoryMovements (exec op st) = inventoryMovements st)"
proof (cases op)
  case (CreateProduct now uid ins)
  with assms show ?thesis
    by (cases "uid = pid") (auto simp: createProduct_def Let_def update_conv')
next
  case (UpdateProduct now ident upd)
  show ?thesis
  proof (cases "ident = pid")
    case True
    with assms UpdateProduct show ?thesis
      by (cases "pp_stock upd") (auto simp: updateProduct_def Let_def update_conv')
  next
    case False
    with assms UpdateProduct show ?thesis
      by (auto simp: updateProduct_def Let_def update_conv' split: option.splits)
  qed
next
  case (DeleteProduct ident)
  with assms show ?thesis
    by (cases "ident = pid") (auto simp: deleteProduct_def delete_conv')
next
  case (UpdateStock now uid productId q)
  with assms show ?thesis
    by (cases "productId = pid") (auto simp: updateStock_other)
next
  case (CreateTransaction now uid mids ins)
  with assms show ?thesis
    by (cases "pid \<in> i_productId ` set (it_items ins)") (auto simp: createTransaction_other)
next
  case (CreateCategory now uid ins)
  with assms show ?thesis
    by (simp add: createCategory_def Let_def)
next
  case (CreateInventoryMovement now uid ins)
  with assms show ?thesis
    by (simp add: createInventoryMovement_def Let_def)
next
  case (UpdateShopSettings now upd)
  with assms show ?thesis
    by (simp add: updateShopSettings_def Let_def split: option.splits)
qed

theorem updateProduct_sets_stock_counterexample:
  "map_option stock (map_of (products store0) 3) = Some (Some 45) \<and>
   map_option stock (map_of (products (snd (updateProduct now0 3 restock store0))) 3)
     = Some (Some 999) \<and>
   inventoryMovements (snd (updateProduct now0 3 restock store0)) = inventoryMovements store0"
proof -
  obtain p where p: "map_of (products store0) 3 = Some p" "stock p = Some 45"
    using store0_product3 by blast
  then show ?thesis
    by (simp add: updateProduct_def Let_def update_conv' restock_def noKeys_def)
qed

theorem stock_changes_only_by_ledger_or_updateProduct_witness:
  "map_option stock (map_of (products store0) 3) = Some (Some 45) \<and>
   map_option stock (map_of (products (exec (UpdateProduct now0 3 restock) store0)) 3)
     = Some (Some 999) \<and>
   pp_stock restock = Some (Some 999) \<and>
   inventoryMovements (exec (UpdateProduct now0 3 restock) store0) = inventoryMovements store0"
proof -
  obtain p where p: "map_of (products store0) 3 = Some p" "stock p = Some 45"
    using store0_product3 by blast
  obtain p' where p': "map_of (products (exec (UpdateProduct now0 3 restock) store0)) 3 = Some p'"
      "stock p' = Some 999"
    using p by (simp add: updateProduct_def Let_def update_conv' restock_def noKeys_def)
  have ne: "stock p' \<noteq> stock p"
    using p(2) p'(2) by simp
  from stock_changes_only_by_ledger_or_updateProduct [OF p(1) p'(1) ne]
  have "pp_stock restock = Some (stock p') \<and>
        inventoryMovements (exec (UpdateProduct now0 3 restock) store0) = inventoryMovements store0"
    by auto
  then show ?thesis
    using p p' by simp
qed

subsection \<open>Analytics\<close>

text \<open>
  Claim C8, on the code. \<open>salesTrend\<close> is computed from the transactions of the window
  of the period, not from all of them. With one sale of 25.00 recorded four days before
  \<open>now\<close> (30 October, with \<open>now\<close> on 3 November, in UTC), the seven entries run from
  28 October to 3 November for every period, but the entry of 30 October is 25.00 for the
  weekly period only: it is 0 for the daily period (the window starts today) and for
  the monthly period (the window starts on 1 November).
\<close>

theorem salesTrend_depends_on_period:
  "map date (salesTrend 0 now0 Daily soldEarlier)
     = [(2026, 10, 28), (2026, 10, 29), (2026, 10, 30), (2026, 10, 31),
        (2026, 11, 1), (2026, 11, 2), (2026, 11, 3)] \<and>
   map (t_createdAt \<circ> snd) (transactions soldEarlier) = [now0 - 4 * msPerDay] \<and>
   map (totalAmount \<circ> snd) (transactions soldEarlier) = [2500] \<and>
   isoDate (now0 - 4 * msPerDay) = (2026, 10, 30) \<and>
   map amount (salesTrend 0 now0 Daily soldEarlier) = [0, 0, 0, 0, 0, 0, 0] \<and>
   map amount (salesTrend 0 now0 Weekly soldEarlier) = [0, 0, 2500, 0, 0, 0, 0] \<and>
   map amount (salesTrend 0 now0 Monthly soldEarlier) = [0, 0, 0, 0, 0, 0, 0]"
  by code_simp

lemma orElse_minStock: "m \<noteq> Some 0 \<Longrightarrow> orElse m 5 = (case m of None \<Rightarrow> 5 | Some k \<Rightarrow> k)"
  by (cases m) auto

text \<open>
  Claim C9, as amended. Where no product has \<open>minStock\<close> 0, \<open>lowStockItems\<close> is the number
  of products, active or not, whose stock (0 when unset) is strictly less than their
  \<open>minStock\<close> (5 when unset). The fresh store with its third product made inactive shows
  that inactive products are counted.
\<close>

theorem lowStockItems_counts_every_product:
  assumes "\<forall>p\<in>set (getProducts st). minStock p \<noteq> Some 0"
  shows "lowStockItems st = length (filter spec_lowStock (getProducts st))"
proof -
  have "filter (\<lambda>p. orElse (stock p) 0 < orElse (minStock p) 5) (getProducts st)
          = filter spec_lowStock (getProducts st)"
    using assms by (intro filter_cong) (auto simp: spec_lowStock_def orElse_stock orElse_minStock)
  then show ?thesis
    by (simp add: lowStockItems_def)
qed

lemma store0_minStock: "map minStock (getProducts store0) = [Some 10, Some 10, Some 5, Some 10]"
  by code_simp

lemma store0_low: "length (filter spec_lowStock (getProducts store0)) = 2"
  by code_simp

theorem lowStockItems_counts_every_product_witness:
  "map minStock (getProducts store0) = [Some 10, Some 10, Some 5, Some 10] \<and>
   lowStockItems store0 = 2"
proof -
  have "\<forall>m\<in>set (map minStock (getProducts store0)). m \<noteq> Some 0"
    unfolding store0_minStock by simp
  then have h: "\<forall>p\<in>set (getProducts store0). minStock p \<noteq> Some 0"
    by simp
  from lowStockItems_counts_every_product [OF h] show ?thesis
    by (simp add: store0_low store0_minStock)
qed

theorem lowStockItems_inactive_counterexample:
  "map (p_isActive \<circ> snd) (products (snd (updateProduct now0 5 deactivate store0)))
     = [Some True, Some True, Some False, Some True] \<and>
   map (stock \<circ> snd) (products (snd (updateProduct now0 5 deactivate store0)))
     = [Some 45, Some 8, Some 3, Some 38] \<and>
   map (minStock \<circ> snd) (products (snd (updateProduct now0 5 deactivate store0)))
     = [Some 10, Some 10, Some 5, Some 10] \<and>
   lowStockItems (snd (updateProduct now0 5 deactivate store0)) = 2 \<and>
   spec_lowStockItems (snd (updateProduct now0 5 deactivate store0)) = 1"
  by code_simp

subsection \<open>Barcodes\<close>

text \<open>
  Claim C10, on the code. \<open>createProduct\<close> does not look at the barcodes of the store:
  given a product with the barcode of the first product of the fresh store, it returns
  normally and the store then holds two products with that barcode.
\<close>

theorem createProduct_accepts_duplicate_barcode:
  "map (barcode \<circ> snd) (products store0)
     = [Some ''8901030001234'', Some ''8901030002345'', Some ''8901030003456'',
        Some ''8901030004567''] \<and>
   ip_barcode secondCola = Some ''8901030001234'' \<and>
   isl (fst (createProduct now0 8 secondCola store0)) = False \<and>
   map (barcode \<circ> snd) (products (snd (createProduct now0 8 secondCola store0)))
     = [Some ''8901030001234'', Some ''8901030002345'', Some ''8901030003456'',
        Some ''8901030004567'', Some ''8901030001234'']"
  by code_simp

end
